theory Spec2Isabelle
  imports Complex_Main "HOL-Library.Multiset" "HOL-Library.Log_Nat"
begin

section \<open>Numeric helpers\<close>

text \<open>
  A Python float is an IEEE double. It is modelled by the real number it holds, and an
  operation on floats by the exact operation followed by \<open>fl\<close>, the rounding to the nearest
  double: 53 significant bits, ties to the even neighbour. The exponent is not bounded, so
  infinities, subnormal numbers, NaN and the sign of zero are outside the model; the one
  range error that is modelled is the OverflowError of \<open>math.exp\<close>. Python ints are
  integers; an int that meets a float is converted exactly (it is below \<open>2^53\<close>).
\<close>

datatype py_error = ZeroDivisionError | OverflowError

definition round_half_even :: "real \<Rightarrow> int" where
  "round_half_even x =
     (let f = \<lfloor>x\<rfloor>; d = x - of_int f
      in if d < 1 / 2 then f else if 1 / 2 < d then f + 1 else if even f then f else f + 1)"

definition pow2 :: "int \<Rightarrow> real" where
  "pow2 e = (if 0 \<le> e then 2 ^ nat e else 1 / 2 ^ nat (- e))"

text \<open>The exponent \<open>e\<close> with \<open>2^e \<le> |x| < 2^(e+1)\<close>, for \<open>x \<noteq> 0\<close>.\<close>

definition float_exponent :: "real \<Rightarrow> int" where
  "float_exponent x =
     (if 1 \<le> \<bar>x\<bar> then bitlen \<lfloor>\<bar>x\<bar>\<rfloor> - 1 else - bitlen (\<lceil>1 / \<bar>x\<bar>\<rceil> - 1))"

definition fl :: "real \<Rightarrow> real" where
  "fl x = (if x = 0 then 0
           else (let ulp = pow2 (float_exponent x - 52)
                 in of_int (round_half_even (x / ulp)) * ulp))"

text \<open>The four operations of floats.\<close>

definition fadd :: "real \<Rightarrow> real \<Rightarrow> real" where
  "fadd x y = fl (x + y)"

definition fsub :: "real \<Rightarrow> real \<Rightarrow> real" where
  "fsub x y = fl (x - y)"

definition fmul :: "real \<Rightarrow> real \<Rightarrow> real" where
  "fmul x y = fl (x * y)"

definition fdiv :: "real \<Rightarrow> real \<Rightarrow> real" where
  "fdiv x y = fl (x / y)"

text \<open>
  \<open>round(x, n)\<close> of a Python float: the decimal with \<open>n\<close> places nearest to the exact value
  of \<open>x\<close>, ties to the even neighbour, and then the double nearest to that decimal.
\<close>

definition round_decimal :: "real \<Rightarrow> nat \<Rightarrow> real" where
  "round_decimal x ndigits = of_int (round_half_even (x * 10 ^ ndigits)) / 10 ^ ndigits"

definition py_round :: "real \<Rightarrow> nat \<Rightarrow> real" where
  "py_round x ndigits = fl (round_decimal x ndigits)"

text \<open>
  \<open>round(x, n)\<close> of a \<open>numpy.float64\<close>, which pandas and numpy return: numpy multiplies by
  \<open>10^n\<close>, rounds that product to the nearest integer (ties to even) and divides again; for
  \<open>n = 0\<close> it only rounds.
\<close>

definition np_round :: "real \<Rightarrow> nat \<Rightarrow> real" where
  "np_round x ndigits =
     (if ndigits = 0 then of_int (round_half_even x)
      else fdiv (of_int (round_half_even (fmul x (10 ^ ndigits)))) (10 ^ ndigits))"

text \<open>
  The builtin \<open>sum\<close> of floats adds from left to right, starting from the int 0 (as CPython
  does before version 3.12).
\<close>

definition py_sum :: "real list \<Rightarrow> real" where
  "py_sum xs = foldl fadd 0 xs"

text \<open>
  \<open>ndarray.sum\<close> of a float64 array, which \<open>Series.sum\<close> calls, adds pairwise: fewer than 8
  numbers from left to right; up to 128 numbers in 8 running sums that are then combined as
  a tree, with the numbers beyond the last multiple of 8 added one by one; more than 128 by
  splitting at a multiple of 8 near the middle.
\<close>

function add_blocks :: "real list \<Rightarrow> real list \<Rightarrow> real list" where
  "add_blocks r xs =
     (if length xs < 8 then r else add_blocks (map2 fadd r (take 8 xs)) (drop 8 xs))"
  by pat_completeness auto
termination
  by (relation "measure (\<lambda>(r, xs). length xs)") auto

declare add_blocks.simps [simp del]

definition np_unrolled_sum :: "real list \<Rightarrow> real" where
  "np_unrolled_sum xs =
     (let n = length xs; m = n - n mod 8
      in case add_blocks (take 8 xs) (take (m - 8) (drop 8 xs)) of
           [r0, r1, r2, r3, r4, r5, r6, r7] \<Rightarrow>
             foldl fadd (fadd (fadd (fadd r0 r1) (fadd r2 r3)) (fadd (fadd r4 r5) (fadd r6 r7)))
               (drop m xs)
         | _ \<Rightarrow> 0)"

function np_pairwise_sum :: "real list \<Rightarrow> real" where
  "np_pairwise_sum xs =
     (let n = length xs
      in if n < 8 then foldl fadd 0 xs
         else if n \<le> 128 then np_unrolled_sum xs
         else (let n2 = n div 2 - (n div 2) mod 8
               in fadd (np_pairwise_sum (take n2 xs)) (np_pairwise_sum (drop n2 xs))))"
  by pat_completeness auto
termination
  by (relation "measure length") (auto simp: Let_def)

declare np_pairwise_sum.simps [simp del]

definition np_sum :: "real list \<Rightarrow> real" where
  "np_sum xs = np_pairwise_sum xs"

text \<open>
  \<open>utils/math.py\<close>. \<open>math.exp\<close> raises OverflowError when its result exceeds the largest
  double, which is so for the doubles above 709.782712893384; below, the C library's value
  is taken to be the correctly rounded one.
\<close>

definition math_exp :: "real \<Rightarrow> py_error + real" where
  "math_exp x = (if 709782712893384 / 10 ^ 12 < x then Inl OverflowError else Inr (fl (exp x)))"

definition sigmoid :: "real \<Rightarrow> py_error + real" where
  "sigmoid x = (case math_exp (- x) of Inl e \<Rightarrow> Inl e | Inr v \<Rightarrow> Inr (fdiv 1 (fadd 1 v)))"

definition safe_div :: "real \<Rightarrow> real \<Rightarrow> real" where
  "safe_div a b = (if b \<noteq> 0 then fdiv a b else 0)"

section \<open>Time parser (\<open>utils/time.py\<close>)\<close>

text \<open>
  A Python string is the list of its characters, for the code points below 256. There
  \<open>str.strip()\<close> removes tab to carriage return, the four separators 28-31, the space, NEL
  (133) and the no-break space (160). \<open>int()\<close> removes less: not the separators 28-31. The
  decimal digits are \<open>0\<close> to \<open>9\<close>.
\<close>

definition is_space :: "char \<Rightarrow> bool" where
  "is_space c = (of_char c \<in> {9, 10, 11, 12, 13, 28, 29, 30, 31, 32, 133, 160 :: nat})"

definition is_int_space :: "char \<Rightarrow> bool" where
  "is_int_space c = (of_char c \<in> {9, 10, 11, 12, 13, 32, 133, 160 :: nat})"

definition is_digit :: "char \<Rightarrow> bool" where
  "is_digit c = (48 \<le> (of_char c :: nat) \<and> (of_char c :: nat) \<le> 57)"

definition digit_val :: "char \<Rightarrow> nat" where
  "digit_val c = of_char c - 48"

definition lstrip :: "string \<Rightarrow> string" where
  "lstrip s = dropWhile is_space s"

definition rstrip :: "string \<Rightarrow> string" where
  "rstrip s = rev (dropWhile is_space (rev s))"

definition strip :: "string \<Rightarrow> string" where
  "strip s = rstrip (lstrip s)"

text \<open>\<open>s.split(sep)\<close> for a separator of one character.\<close>

fun split_on :: "char \<Rightarrow> string \<Rightarrow> string list" where
  "split_on sep [] = [[]]"
| "split_on sep (c # cs) =
     (if c = sep then [] # split_on sep cs
      else (case split_on sep cs of p # ps \<Rightarrow> (c # p) # ps | [] \<Rightarrow> [[c]]))"

text \<open>
  \<open>int(s)\<close> in base 10, \<open>None\<close> for the ValueError: surrounding whitespace, one optional
  sign, then digits, where single underscores may stand between two digits. A string with
  more than 4300 digits is refused (the interpreter's default limit).
\<close>

fun digits_tail :: "string \<Rightarrow> nat \<Rightarrow> nat option" where
  "digits_tail [] acc = Some acc"
| "digits_tail (c # cs) acc =
     (if is_digit c then digits_tail cs (10 * acc + digit_val c)
      else if c = CHR ''_'' then
        (case cs of
           [] \<Rightarrow> None
         | d # ds \<Rightarrow> if is_digit d then digits_tail ds (10 * acc + digit_val d) else None)
      else None)"

definition int_unsigned :: "string \<Rightarrow> nat option" where
  "int_unsigned s =
     (if 4300 < length (filter is_digit s) then None
      else (case s of
              [] \<Rightarrow> None
            | c # cs \<Rightarrow> if is_digit c then digits_tail cs (digit_val c) else None))"

definition int_strip :: "string \<Rightarrow> string" where
  "int_strip s = rev (dropWhile is_int_space (rev (dropWhile is_int_space s)))"

definition py_int :: "string \<Rightarrow> int option" where
  "py_int s =
     (case int_strip s of
        [] \<Rightarrow> None
      | c # cs \<Rightarrow>
         if c = CHR ''-'' then map_option (\<lambda>n. - int n) (int_unsigned cs)
         else if c = CHR ''+'' then map_option int (int_unsigned cs)
         else map_option int (int_unsigned (c # cs)))"

text \<open>
  The argument of \<open>mmss_to_seconds\<close>: a missing value (\<open>pd.NA\<close>, NaN, None), a string, or
  another float, whose \<open>str\<close> holds no colon.
\<close>

datatype clock_value = NA | Text string | Number real

definition mmss_to_seconds :: "clock_value \<Rightarrow> int" where
  "mmss_to_seconds mmss =
     (case mmss of
        NA \<Rightarrow> 0
      | Number x \<Rightarrow> 0
      | Text s \<Rightarrow>
         (case split_on CHR '':'' (strip s) of
            [p0, p1] \<Rightarrow>
              (case py_int p0 of
                 None \<Rightarrow> 0
               | Some m \<Rightarrow> (case py_int p1 of None \<Rightarrow> 0 | Some sec \<Rightarrow> m * 60 + sec))
          | _ \<Rightarrow> 0))"

text \<open>The value of a string of decimal digits.\<close>

definition decimal :: "string \<Rightarrow> nat" where
  "decimal ds = foldl (\<lambda>acc c. 10 * acc + digit_val c) 0 ds"

section \<open>TeamKeys (\<open>features/keys.py\<close>)\<close>

record TeamKeys =
  team :: string
  top_min :: real
  turnovers :: int
  big_plays :: int
  third_down_pct :: real
  redzone_td_pct :: real
  third_down_attempts :: int
  third_down_converted :: int
  redzone_trips :: int
  redzone_td_drives :: int

text \<open>The dataclass constructor with the defaults of its four count fields.\<close>

definition make_TeamKeys :: "string \<Rightarrow> real \<Rightarrow> int \<Rightarrow> int \<Rightarrow> real \<Rightarrow> real \<Rightarrow> TeamKeys" where
  "make_TeamKeys t tm to big third rz =
     \<lparr>team = t, top_min = tm, turnovers = to, big_plays = big, third_down_pct = third,
      redzone_td_pct = rz, third_down_attempts = 0, third_down_converted = 0,
      redzone_trips = 0, redzone_td_drives = 0\<rparr>"

definition empty_team_keys :: "string \<Rightarrow> TeamKeys" where
  "empty_team_keys team_name =
     \<lparr>team = team_name, top_min = 0, turnovers = 0, big_plays = 0, third_down_pct = 0,
      redzone_td_pct = 0, third_down_attempts = 0, third_down_converted = 0,
      redzone_trips = 0, redzone_td_drives = 0\<rparr>"

text \<open>
  \<open>aggregate_keys\<close>; the argument \<open>team\<close> is \<open>team_name\<close> here, an empty string is falsy.
  The fields of the given TeamKeys are Python floats and ints, so the sums are those of the
  builtin \<open>sum\<close> and the roundings those of the builtin \<open>round\<close>.
\<close>

definition aggregate_keys :: "TeamKeys list \<Rightarrow> string \<Rightarrow> TeamKeys" where
  "aggregate_keys keys_list team_name =
     (case keys_list of
        [] \<Rightarrow> empty_team_keys team_name
      | k0 # _ \<Rightarrow>
         (let t = (if team_name \<noteq> [] then team_name else team k0);
              top_min_sum = py_sum (map top_min keys_list);
              turnovers_sum = sum_list (map turnovers keys_list);
              big_plays_sum = sum_list (map big_plays keys_list);
              third_attempts = sum_list (map third_down_attempts keys_list);
              third_converted = sum_list (map third_down_converted keys_list);
              rz_trips = sum_list (map redzone_trips keys_list);
              rz_td_drives = sum_list (map redzone_td_drives keys_list);
              third_pct = fmul 100 (safe_div (of_int third_converted) (of_int third_attempts));
              redzone_pct = fmul 100 (safe_div (of_int rz_td_drives) (of_int rz_trips))
          in \<lparr>team = t, top_min = py_round top_min_sum 2, turnovers = turnovers_sum,
               big_plays = big_plays_sum, third_down_pct = py_round third_pct 2,
               redzone_td_pct = py_round redzone_pct 2, third_down_attempts = third_attempts,
               third_down_converted = third_converted, redzone_trips = rz_trips,
               redzone_td_drives = rz_td_drives\<rparr>))"

section \<open>Keys engine (\<open>features/keys.py\<close>)\<close>

text \<open>
  One row of the play-by-play table. A cell that holds NaN or None is \<open>None\<close>. The table
  records which of the optional columns it has; the columns that \<open>compute_team_keys\<close>
  indexes directly, and \<open>touchdown\<close>, are always there.
\<close>

record Play =
  game_id :: "string option"
  posteam :: "string option"
  drive :: "real option"
  drive_time_of_possession :: clock_value
  play_type :: "string option"
  down :: "real option"
  ydstogo :: "real option"
  yards_gained :: "real option"
  yardline_100 :: "real option"
  touchdown :: "real option"
  interception :: "real option"
  fumble_lost :: "real option"
  no_play :: "real option"
  first_down :: "real option"

record Pbp =
  plays :: "Play list"
  has_interception :: bool
  has_fumble_lost :: bool
  has_no_play :: bool
  has_first_down :: bool

definition fillna :: "real option \<Rightarrow> real \<Rightarrow> real" where
  "fillna v d = (case v of None \<Rightarrow> d | Some x \<Rightarrow> x)"

text \<open>\<open>int(x)\<close> of a float truncates towards zero.\<close>

definition int_of_float :: "real \<Rightarrow> int" where
  "int_of_float x = (if 0 \<le> x then \<lfloor>x\<rfloor> else \<lceil>x\<rceil>)"

text \<open>\<open>df.dropna(subset=["game_id", "drive"]).drop_duplicates(subset=["game_id", "drive"])\<close>:
  the first row of every (game, drive).\<close>

definition drive_key :: "Play \<Rightarrow> string option \<times> real option" where
  "drive_key p = (game_id p, drive p)"

definition dropna_drive :: "Play list \<Rightarrow> Play list" where
  "dropna_drive ps = filter (\<lambda>p. game_id p \<noteq> None \<and> drive p \<noteq> None) ps"

fun drop_duplicates_drive :: "Play list \<Rightarrow> (string option \<times> real option) list \<Rightarrow> Play list" where
  "drop_duplicates_drive [] seen = []"
| "drop_duplicates_drive (p # ps) seen =
     (if drive_key p \<in> set seen then drop_duplicates_drive ps seen
      else p # drop_duplicates_drive ps (drive_key p # seen))"

definition is_scoring_play_type :: "Play \<Rightarrow> bool" where
  "is_scoring_play_type p = (play_type p = Some ''pass'' \<or> play_type p = Some ''run'')"

text \<open>
  \<open>compute_team_keys\<close>. The seconds are summed as integers and divided by \<open>60.0\<close> into a
  \<open>numpy.float64\<close>, which numpy rounds; the turnover columns are float columns that numpy
  sums; the two rates are Python floats, made from Python ints.
\<close>

definition compute_team_keys :: "Pbp \<Rightarrow> string \<Rightarrow> int \<Rightarrow> int \<Rightarrow> int \<Rightarrow> int \<Rightarrow> TeamKeys" where
  "compute_team_keys pbp team_name big_play_pass_yards big_play_rush_yards red_zone_yardline
      third_down_number =
     (let tdf = filter (\<lambda>p. posteam p = Some team_name) (plays pbp)
      in if tdf = [] then empty_team_keys team_name
         else
          (let drive_top = drop_duplicates_drive (dropna_drive tdf) [];
               top_seconds = sum_list (map (\<lambda>p. mmss_to_seconds (drive_time_of_possession p)) drive_top);
               top_minutes = fdiv (of_int top_seconds) 60;
               ints = int_of_float (if has_interception pbp
                                    then np_sum (map (\<lambda>p. fillna (interception p) 0) tdf) else 0);
               fum_lost = int_of_float (if has_fumble_lost pbp
                                        then np_sum (map (\<lambda>p. fillna (fumble_lost p) 0) tdf) else 0);
               any_no_play = list_ex (\<lambda>p. play_type p = Some ''no_play'') tdf;
               play_type_ok = (\<lambda>p. is_scoring_play_type p
                                \<and> (if has_no_play pbp then fillna (no_play p) 0 \<noteq> 1
                                    else if any_no_play then play_type p \<noteq> Some ''no_play''
                                    else True));
               big_play_mask = (\<lambda>p. play_type_ok p
                  \<and> ((play_type p = Some ''pass'' \<and> fillna (yards_gained p) 0 \<ge> of_int big_play_pass_yards)
                     \<or> (play_type p = Some ''run'' \<and> fillna (yards_gained p) 0 \<ge> of_int big_play_rush_yards)));
               big = int (length (filter big_play_mask tdf));
               third = filter (\<lambda>p. down p = Some (of_int third_down_number) \<and> is_scoring_play_type p) tdf;
               third_attempts = int (length third);
               converted = (\<lambda>p. (if has_first_down pbp then fillna (first_down p) 0 = 1
                                   else fillna (yards_gained p) 0 \<ge> fillna (ydstogo p) 999)
                                  \<or> fillna (touchdown p) 0 = 1);
               third_converted = (if third_attempts = 0 then 0 else int (length (filter converted third)));
               third_pct = fmul 100 (safe_div (of_int third_converted) (of_int third_attempts));
               rz_plays = filter (\<lambda>p. fillna (yardline_100 p) 999 \<le> of_int red_zone_yardline) tdf;
               rz_drives_df = drop_duplicates_drive (dropna_drive rz_plays) [];
               rz_trips = int (length rz_drives_df);
               td_drive_ids = map drive_key (filter (\<lambda>p. fillna (touchdown p) 0 = 1) tdf);
               rz_td_drives = (if rz_trips = 0 then 0
                               else int (length (filter (\<lambda>p. drive_key p \<in> set td_drive_ids) rz_drives_df)));
               rz_pct = (if rz_trips = 0 then 0
                         else fmul 100 (safe_div (of_int rz_td_drives) (of_int rz_trips)))
           in \<lparr>team = team_name, top_min = np_round top_minutes 2, turnovers = ints + fum_lost,
                big_plays = big, third_down_pct = py_round third_pct 2,
                redzone_td_pct = py_round rz_pct 2, third_down_attempts = third_attempts,
                third_down_converted = third_converted, redzone_trips = rz_trips,
                redzone_td_drives = rz_td_drives\<rparr>))"

text \<open>A table with the twelve columns of the tests, and one of its rows.\<close>

definition test_pbp :: "Play list \<Rightarrow> Pbp" where
  "test_pbp rows = \<lparr>plays = rows, has_interception = True, has_fumble_lost = True,
     has_no_play = False, has_first_down = False\<rparr>"

definition test_play :: "string \<Rightarrow> string \<Rightarrow> real \<Rightarrow> string \<Rightarrow> real \<Rightarrow> real \<Rightarrow> real \<Rightarrow> string \<Rightarrow> real \<Rightarrow> real \<Rightarrow> Play" where
  "test_play g t d clock dn togo yards ptype td yardline =
     \<lparr>game_id = Some g, posteam = Some t, drive = Some d, drive_time_of_possession = Text clock,
      play_type = Some ptype, down = Some dn, ydstogo = Some togo, yards_gained = Some yards,
      yardline_100 = Some yardline, touchdown = Some td, interception = Some 0,
      fumble_lost = Some 0, no_play = None, first_down = None\<rparr>"

text \<open>
  The invariant of C4 as the code keeps it: each rate is the quotient of its two counts (0
  when the denominator is 0), times 100, rounded to 2 decimals, all in the arithmetic of
  doubles.
\<close>

definition rate_of :: "int \<Rightarrow> int \<Rightarrow> real" where
  "rate_of made tried =
     (if tried = 0 then 0 else py_round (fmul 100 (fdiv (of_int made) (of_int tried))) 2)"

definition rates_recomputed :: "TeamKeys \<Rightarrow> bool" where
  "rates_recomputed k =
     (third_down_pct k = rate_of (third_down_converted k) (third_down_attempts k)
      \<and> redzone_td_pct k = rate_of (redzone_td_drives k) (redzone_trips k))"

section \<open>Key comparator (\<open>core/key_compare.py\<close>)\<close>

text \<open>The comparator's difference of two values is taken exactly.\<close>

record KeyComparison =
  winner :: string
  margin :: real
  abs_margin :: real

definition compare_values :: "real \<Rightarrow> real \<Rightarrow> string \<Rightarrow> string \<Rightarrow> bool \<Rightarrow> real \<Rightarrow> KeyComparison" where
  "compare_values a b team_a team_b higher_is_better eps =
     (let margin = a - b; abs_margin = \<bar>margin\<bar>
      in if abs_margin \<le> eps
         then \<lparr>winner = ''TIE'', margin = margin, abs_margin = abs_margin\<rparr>
         else \<lparr>winner = (if higher_is_better
                          then (if a > b then team_a else team_b)
                          else (if a < b then team_a else team_b)),
               margin = margin, abs_margin = abs_margin\<rparr>)"

definition default_eps :: real where
  "default_eps = 1 / 10 ^ 9"

text \<open>The returned dict, in insertion order.\<close>

definition compare_5keys :: "TeamKeys \<Rightarrow> TeamKeys \<Rightarrow> string \<Rightarrow> string \<Rightarrow> real \<Rightarrow> (string \<times> KeyComparison) list" where
  "compare_5keys keys_a keys_b team_a team_b eps =
     [(''TOP'', compare_values (top_min keys_a) (top_min keys_b) team_a team_b True eps),
      (''TO'', compare_values (of_int (turnovers keys_a)) (of_int (turnovers keys_b)) team_a team_b False eps),
      (''BIG'', compare_values (of_int (big_plays keys_a)) (of_int (big_plays keys_b)) team_a team_b True eps),
      (''3D'', compare_values (third_down_pct keys_a) (third_down_pct keys_b) team_a team_b True eps),
      (''RZ'', compare_values (redzone_td_pct keys_a) (redzone_td_pct keys_b) team_a team_b True eps)]"

text \<open>
  The tally in the words of C1: the keys that a team wins by value, where a difference of
  at most \<open>eps\<close> is a tie and counts for neither team.
\<close>

definition wins_key :: "real \<Rightarrow> real \<Rightarrow> bool \<Rightarrow> bool" where
  "wins_key x y higher_is_better =
     (default_eps < \<bar>x - y\<bar> \<and> (if higher_is_better then y < x else x < y))"

definition keys_won_by_value :: "TeamKeys \<Rightarrow> TeamKeys \<Rightarrow> nat" where
  "keys_won_by_value x y =
     length (filter id
       [wins_key (top_min x) (top_min y) True,
        wins_key (of_int (turnovers x)) (of_int (turnovers y)) False,
        wins_key (of_int (big_plays x)) (of_int (big_plays y)) True,
        wins_key (third_down_pct x) (third_down_pct y) True,
        wins_key (redzone_td_pct x) (redzone_td_pct y) True])"

section \<open>Prediction engine (\<open>models/professor_keys.py\<close>, \<open>config.py\<close>)\<close>

record TeamContext =
  sos_z :: real
  expected_turnovers_per_game :: "real option"
  dgi :: real

definition default_TeamContext :: TeamContext where
  "default_TeamContext = \<lparr>sos_z = 0, expected_turnovers_per_game = None, dgi = 0\<rparr>"

record Config =
  turnover_weight :: real
  key_weight :: real
  rule_bonus :: real
  top_divisor :: real
  turnover_divisor :: real
  big_play_divisor :: real
  third_down_divisor :: real
  redzone_divisor :: real

text \<open>A decimal literal such as \<open>1.35\<close> is the double nearest to it.\<close>

definition DEFAULT_CONFIG :: Config where
  "DEFAULT_CONFIG =
     \<lparr>turnover_weight = fl (135 / 100), key_weight = fl (55 / 100), rule_bonus = fl (40 / 100),
      top_divisor = 6, turnover_divisor = 1, big_play_divisor = 2,
      third_down_divisor = 10, redzone_divisor = 12\<rparr>"

text \<open>
  A dict is the list of its items in insertion order. \<open>update_dict d e\<close> is \<open>d.update(e)\<close>,
  \<open>set_item d k v\<close> is \<open>d[k] = v\<close>; both keep the position of a key that is already there.
  \<open>get_item d k\<close> is \<open>d[k]\<close> for a key that every dict built below holds (0 stands for the
  KeyError that cannot arise).
\<close>

fun set_item :: "(string \<times> 'v) list \<Rightarrow> string \<Rightarrow> 'v \<Rightarrow> (string \<times> 'v) list" where
  "set_item [] k v = [(k, v)]"
| "set_item ((k', v') # d) k v = (if k' = k then (k, v) # d else (k', v') # set_item d k v)"

fun update_dict :: "(string \<times> 'v) list \<Rightarrow> (string \<times> 'v) list \<Rightarrow> (string \<times> 'v) list" where
  "update_dict d [] = d"
| "update_dict d ((k, v) # e) = update_dict (set_item d k v) e"

definition get_item :: "(string \<times> 'v::zero) list \<Rightarrow> string \<Rightarrow> 'v" where
  "get_item d k = (case map_of d k of Some v \<Rightarrow> v | None \<Rightarrow> 0)"

definition DEFAULT_WEIGHTS :: "(string \<times> real) list" where
  "DEFAULT_WEIGHTS =
     [(''turnover'', fl (135 / 100)), (''key'', fl (55 / 100)), (''sos'', fl (15 / 100)),
      (''dgi'', fl (12 / 100)), (''rule_bonus'', fl (40 / 100))]"

definition DEFAULT_DIVISORS :: "(string \<times> real) list" where
  "DEFAULT_DIVISORS =
     [(''top'', 6), (''turnover'', 1), (''big_play'', 2), (''third_down'', 10), (''redzone'', 12)]"

text \<open>Lines 77-93: an absent or empty \<open>weights\<close> (\<open>divisors\<close>) dict takes the config's values.\<close>

definition resolve_weights :: "Config \<Rightarrow> (string \<times> real) list option \<Rightarrow> (string \<times> real) list" where
  "resolve_weights cfg weights =
     (case weights of
        Some (x # xs) \<Rightarrow> update_dict DEFAULT_WEIGHTS (x # xs)
      | _ \<Rightarrow> set_item (set_item (set_item DEFAULT_WEIGHTS ''turnover'' (turnover_weight cfg))
                 ''key'' (key_weight cfg)) ''rule_bonus'' (rule_bonus cfg))"

definition resolve_divisors :: "Config \<Rightarrow> (string \<times> real) list option \<Rightarrow> (string \<times> real) list" where
  "resolve_divisors cfg divisors =
     (case divisors of
        Some (x # xs) \<Rightarrow> update_dict DEFAULT_DIVISORS (x # xs)
      | _ \<Rightarrow> set_item (set_item (set_item (set_item (set_item DEFAULT_DIVISORS
                 ''top'' (top_divisor cfg)) ''turnover'' (turnover_divisor cfg))
                 ''big_play'' (big_play_divisor cfg)) ''third_down'' (third_down_divisor cfg))
                 ''redzone'' (redzone_divisor cfg))"

record Explanation =
  key_winners :: "(string \<times> string) list"
  margin_table :: "(string \<times> real) list"
  contributions :: "(string \<times> real) list"
  driver_ranking :: "(string \<times> real) list"
  logit :: real

text \<open>The returned dict; its \<open>"logit"\<close> entry is the field \<open>logit_rounded\<close>.\<close>

record PredictionResult =
  predicted_winner :: string
  p_team_a_win :: real
  p_team_b_win :: real
  keys_won :: "(string \<times> nat) list"
  ties :: nat
  tied_keys :: "string list"
  top_3_drivers :: "(string \<times> real) list"
  explanation :: Explanation
  logit_rounded :: real

text \<open>
  \<open>predict\<close>. The comparator runs first (line 99), so a zero divisor raises at the first
  division of lines 131-139, whichever of the five it is. \<open>sorted\<close> is stable, also with
  \<open>reverse=True\<close>, as \<open>sort_key\<close> on the negated key is. The entry \<open>rule_3_keys\<close> joins
  \<open>contrib\<close> at line 151, before the clamp, which does not change it.
\<close>

definition has_zero_divisor :: "(string \<times> real) list \<Rightarrow> bool" where
  "has_zero_divisor dv =
     (get_item dv ''top'' = 0 \<or> get_item dv ''turnover'' = 0 \<or> get_item dv ''big_play'' = 0
      \<or> get_item dv ''third_down'' = 0 \<or> get_item dv ''redzone'' = 0)"

definition count_winner :: "(string \<times> string) list \<Rightarrow> string \<Rightarrow> nat" where
  "count_winner kws name = length (filter (\<lambda>(k, w). w = name) kws)"

text \<open>
  Lines 142-168 of \<open>predict\<close>: the bonus of the 3+ keys rule and the clamp. The result is
  \<open>(rule_contrib, logit, p_a)\<close> as they stand at line 168.
\<close>


definition professor_rule :: "string \<Rightarrow> string \<Rightarrow> nat \<Rightarrow> nat \<Rightarrow> real \<Rightarrow> real \<Rightarrow> py_error + real \<times> real \<times> real" where
  "professor_rule team_a_name team_b_name keys_a keys_b rule_bonus_val logit0 =
     (let logit1 = (if keys_a \<ge> 3 \<and> keys_b < 3 then fadd logit0 rule_bonus_val
                    else if keys_b \<ge> 3 \<and> keys_a < 3 then fsub logit0 rule_bonus_val
                    else logit0);
          rc = (if keys_a \<ge> 3 \<and> keys_b < 3 then rule_bonus_val
                else if keys_b \<ge> 3 \<and> keys_a < 3 then - rule_bonus_val
                else 0);
          keys_winner = (if keys_a \<ge> 3 then Some team_a_name
                         else if keys_b \<ge> 3 then Some team_b_name else None)
      in case sigmoid logit1 of
           Inl e \<Rightarrow> Inl e
         | Inr p_a0 \<Rightarrow>
            (let logit_based_winner = (if p_a0 \<ge> 1 / 2 then team_a_name else team_b_name)
             in if keys_winner \<noteq> None \<and> keys_winner \<noteq> Some logit_based_winner
                then (let logit2 = (if keys_winner = Some team_a_name then max logit1 0
                                    else min logit1 (fl (- (1 / 100))))
                      in case sigmoid logit2 of
                           Inl e \<Rightarrow> Inl e
                         | Inr p_a \<Rightarrow> Inr (rc, logit2, p_a))
                else Inr (rc, logit1, p_a0)))"

text \<open>Lines 172-176: the three largest non-zero contributions by absolute value.\<close>

definition rank_drivers :: "(string \<times> real) list \<Rightarrow> (string \<times> real) list" where
  "rank_drivers contrib = take 3 (sort_key (\<lambda>(k, v). - \<bar>v\<bar>) (filter (\<lambda>(k, v). v \<noteq> 0) contrib))"

text \<open>
  Lines 108-129 and 131-139: the margins and the contributions. The fields of the TeamKeys
  and of the contexts are Python floats and ints.
\<close>

definition margins :: "TeamKeys \<Rightarrow> TeamKeys \<Rightarrow> TeamContext \<Rightarrow> TeamContext \<Rightarrow> (string \<times> real) list" where
  "margins a b ctx_a ctx_b =
     (let m_top = fsub (top_min a) (top_min b);
          m_to_raw = of_int (turnovers b - turnovers a);
          m_to = (case (expected_turnovers_per_game ctx_a, expected_turnovers_per_game ctx_b) of
                    (Some ea, Some eb) \<Rightarrow> fsub eb ea
                  | _ \<Rightarrow> m_to_raw);
          m_big = of_int (big_plays a - big_plays b);
          m_3d = fsub (third_down_pct a) (third_down_pct b);
          m_rz = fsub (redzone_td_pct a) (redzone_td_pct b);
          m_sos = fsub (sos_z ctx_a) (sos_z ctx_b);
          m_dgi = (if dgi ctx_a \<noteq> 0 \<or> dgi ctx_b \<noteq> 0 then fsub (dgi ctx_a) (dgi ctx_b) else 0)
      in [(''TOP'', m_top), (''TO'', m_to), (''BIG'', m_big), (''3D'', m_3d), (''RZ'', m_rz),
          (''SOS_z'', m_sos), (''DGI'', m_dgi)])"

definition contributions0 :: "(string \<times> real) list \<Rightarrow> (string \<times> real) list \<Rightarrow> (string \<times> real) list
    \<Rightarrow> (string \<times> real) list" where
  "contributions0 w dv mt =
     [(''TOP'', fmul (get_item w ''key'') (fdiv (get_item mt ''TOP'') (get_item dv ''top''))),
      (''TO'', fmul (get_item w ''turnover'') (fdiv (get_item mt ''TO'') (get_item dv ''turnover''))),
      (''BIG'', fmul (get_item w ''key'') (fdiv (get_item mt ''BIG'') (get_item dv ''big_play''))),
      (''3D'', fmul (get_item w ''key'') (fdiv (get_item mt ''3D'') (get_item dv ''third_down''))),
      (''RZ'', fmul (get_item w ''key'') (fdiv (get_item mt ''RZ'') (get_item dv ''redzone''))),
      (''SOS_z'', fmul (get_item w ''sos'') (get_item mt ''SOS_z'')),
      (''DGI'', fmul (get_item w ''dgi'') (get_item mt ''DGI''))]"

definition predict :: "TeamKeys \<Rightarrow> TeamKeys \<Rightarrow> string \<Rightarrow> string \<Rightarrow> TeamContext option \<Rightarrow> TeamContext option
    \<Rightarrow> Config option \<Rightarrow> (string \<times> real) list option \<Rightarrow> (string \<times> real) list option
    \<Rightarrow> py_error + PredictionResult" where
  "predict team_a_keys team_b_keys team_a_name team_b_name context_a context_b config weights divisors =
     (let cfg = (case config of Some c \<Rightarrow> c | None \<Rightarrow> DEFAULT_CONFIG);
          w = resolve_weights cfg weights;
          dv = resolve_divisors cfg divisors;
          a = team_a_keys;
          b = team_b_keys;
          ctx_a = (case context_a of Some c \<Rightarrow> c | None \<Rightarrow> default_TeamContext);
          ctx_b = (case context_b of Some c \<Rightarrow> c | None \<Rightarrow> default_TeamContext);
          comparisons = compare_5keys a b team_a_name team_b_name default_eps;
          kws = map (\<lambda>(k, comp). (k, winner comp)) comparisons;
          keys_a = count_winner kws team_a_name;
          keys_b = count_winner kws team_b_name;
          tied = map fst (filter (\<lambda>(k, w). w = ''TIE'') kws);
          counts = set_item [(team_a_name, keys_a)] team_b_name keys_b;
          mt = margins a b ctx_a ctx_b
      in if has_zero_divisor dv then Inl ZeroDivisionError
         else
           (let contrib0 = contributions0 w dv mt;
                logit0 = py_sum (map snd contrib0)
            in case professor_rule team_a_name team_b_name keys_a keys_b
                      (get_item w ''rule_bonus'') logit0 of
                 Inl e \<Rightarrow> Inl e
               | Inr ruled \<Rightarrow>
                  (let rc = fst ruled;
                       logit2 = fst (snd ruled);
                       p_a = snd (snd ruled);
                       contrib = set_item contrib0 ''rule_3_keys'' rc;
                       drivers = rank_drivers contrib
                   in Inr \<lparr>predicted_winner = (if p_a \<ge> 1 / 2 then team_a_name else team_b_name),
                           p_team_a_win = py_round p_a 3,
                           p_team_b_win = py_round (fsub 1 p_a) 3,
                           keys_won = counts,
                           ties = length tied,
                           tied_keys = tied,
                           top_3_drivers = drivers,
                           explanation = \<lparr>key_winners = kws, margin_table = mt, contributions = contrib,
                                           driver_ranking = drivers, logit = logit2\<rparr>,
                           logit_rounded = py_round logit2 4\<rparr>)))"

section \<open>Percentile rank (\<open>analysis/rank_keys.py\<close>)\<close>

definition percentile_rank :: "real \<Rightarrow> real list \<Rightarrow> bool \<Rightarrow> real" where
  "percentile_rank val vals lower_is_better =
     (if vals = [] then 50
      else (let n = length vals
            in if lower_is_better
               then (let count_better = length (filter (\<lambda>v. v > val) vals)
                     in 100 * of_nat (n - count_better) / of_nat n)
               else (let count_worse_or_eq = length (filter (\<lambda>v. v \<le> val) vals)
                     in 100 * of_nat count_worse_or_eq / of_nat n)))"

text \<open>
  The percentile in the words of the specification and of the docstring: the percentage of
  the population whose value is no better than the team's, which is \<open>\<le>\<close> when higher is
  better and \<open>\<ge>\<close> when lower is better; 50 for an empty population.
\<close>

definition percentile_no_better :: "real \<Rightarrow> real list \<Rightarrow> bool \<Rightarrow> real" where
  "percentile_no_better val vals lower_is_better =
     (if vals = [] then 50
      else 100 * of_nat (length (filter (\<lambda>v. if lower_is_better then v \<ge> val else v \<le> val) vals))
             / of_nat (length vals))"

text \<open>The left-hand side of the invariant \<open>keys_won[A] + keys_won[B] + ties == 5\<close>.\<close>

definition keys_total :: "string \<Rightarrow> string \<Rightarrow> PredictionResult \<Rightarrow> nat" where
  "keys_total team_a_name team_b_name r =
     get_item (keys_won r) team_a_name + get_item (keys_won r) team_b_name + ties r"

section \<open>Strength of schedule: z-scores (\<open>features/sos.py\<close>)\<close>

definition py_div :: "real \<Rightarrow> real \<Rightarrow> py_error + real" where
  "py_div a b = (if b = 0 then Inl ZeroDivisionError else Inr (fdiv a b))"

text \<open>The dict comprehension of line 91, one division per item.\<close>

fun zscore_items :: "(string \<times> real) list \<Rightarrow> real \<Rightarrow> real \<Rightarrow> py_error + (string \<times> real) list" where
  "zscore_items [] mean std = Inr []"
| "zscore_items ((t, sos) # d) mean std =
     (case py_div (fsub sos mean) std of
        Inl e \<Rightarrow> Inl e
      | Inr z \<Rightarrow> (case zscore_items d mean std of
                    Inl e \<Rightarrow> Inl e
                  | Inr zs \<Rightarrow> Inr ((t, z) # zs)))"

text \<open>
  \<open>zscore_sos\<close>: the dict is the list of its items. \<open>d ** 2\<close> is the rounded square and
  \<open>variance ** 0.5\<close> the rounded square root, of a number that is never negative.
\<close>

definition zscore_sos :: "(string \<times> real) list \<Rightarrow> py_error + (string \<times> real) list" where
  "zscore_sos all_team_sos =
     (if all_team_sos = [] then Inr []
      else (let vals = map snd all_team_sos; n = length vals
            in case py_div (py_sum vals) (of_nat n) of
                 Inl e \<Rightarrow> Inl e
               | Inr mean \<Rightarrow>
                  if n < 2 then Inr (map (\<lambda>(t, sos). (t, 0)) all_team_sos)
                  else (case py_div (py_sum (map (\<lambda>x. fl ((fsub x mean) ^ 2)) vals)) (of_nat (n - 1)) of
                          Inl e \<Rightarrow> Inl e
                        | Inr variance \<Rightarrow>
                           (let std = fl (sqrt variance)
                            in if std = 0 then Inr (map (\<lambda>(t, sos). (t, 0)) all_team_sos)
                               else zscore_items all_team_sos mean std))))"

section \<open>Weighted aggregation (\<open>features/aggregate_weighted.py\<close>)\<close>

text \<open>
  The per-game table is the list of its rows, each with its index label and the columns of
  a TeamKeys. The weight series is the list of its (label, weight) items, without those
  that hold NaN: \<open>weights.reindex(index).fillna(1.0)\<close> gives 1 for a missing label and for
  a NaN alike. The columns and the weights are float64 and int64 arrays: the sums are
  numpy's, and the quotients are \<open>numpy.float64\<close>, which numpy rounds.
\<close>

definition aligned_weights :: "(nat \<times> TeamKeys) list \<Rightarrow> (nat \<times> real) list \<Rightarrow> real list" where
  "aligned_weights team_games_df weights =
     map (\<lambda>(i, row). case map_of weights i of Some x \<Rightarrow> x | None \<Rightarrow> 1) team_games_df"

text \<open>\<open>(column * w).sum()\<close>\<close>

definition weighted_sum :: "real list \<Rightarrow> real list \<Rightarrow> real" where
  "weighted_sum xs w = np_sum (map2 fmul xs w)"

text \<open>
  \<open>aggregate_weighted_keys\<close>. \<open>int(round(x, 0))\<close> is the integer nearest to \<open>x\<close>, ties to
  even. Where \<open>safe_div\<close> gives the Python float \<open>0.0\<close>, the builtin \<open>round\<close> of the rate
  gives 0 as numpy's does.
\<close>

definition aggregate_weighted_keys :: "(nat \<times> TeamKeys) list \<Rightarrow> (nat \<times> real) list \<Rightarrow> TeamKeys" where
  "aggregate_weighted_keys team_games_df weights =
     (case team_games_df of
        [] \<Rightarrow> \<lparr>team = [], top_min = 0, turnovers = 0, big_plays = 0, third_down_pct = 0,
               redzone_td_pct = 0, third_down_attempts = 0, third_down_converted = 0,
               redzone_trips = 0, redzone_td_drives = 0\<rparr>
      | (i0, row0) # _ \<Rightarrow>
         (let team_name = team row0;
              rows = map snd team_games_df;
              w = aligned_weights team_games_df weights;
              total_w0 = np_sum w;
              total_w = (if total_w0 = 0 then 1 else total_w0);
              top_min_avg = fdiv (weighted_sum (map top_min rows) w) total_w;
              turnovers_avg = fdiv (weighted_sum (map (\<lambda>r. of_int (turnovers r)) rows) w) total_w;
              big_plays_avg = fdiv (weighted_sum (map (\<lambda>r. of_int (big_plays r)) rows) w) total_w;
              third_attempts_w = weighted_sum (map (\<lambda>r. of_int (third_down_attempts r)) rows) w;
              third_converted_w = weighted_sum (map (\<lambda>r. of_int (third_down_converted r)) rows) w;
              rz_trips_w = weighted_sum (map (\<lambda>r. of_int (redzone_trips r)) rows) w;
              rz_td_drives_w = weighted_sum (map (\<lambda>r. of_int (redzone_td_drives r)) rows) w;
              third_pct = fmul 100 (safe_div third_converted_w third_attempts_w);
              redzone_pct = fmul 100 (safe_div rz_td_drives_w rz_trips_w)
          in \<lparr>team = team_name, top_min = np_round top_min_avg 2,
               turnovers = int_of_float (np_round turnovers_avg 0),
               big_plays = int_of_float (np_round big_plays_avg 0),
               third_down_pct = np_round third_pct 2,
               redzone_td_pct = np_round redzone_pct 2,
               third_down_attempts = int_of_float (np_round third_attempts_w 0),
               third_down_converted = int_of_float (np_round third_converted_w 0),
               redzone_trips = int_of_float (np_round rz_trips_w 0),
               redzone_td_drives = int_of_float (np_round rz_td_drives_w 0)\<rparr>))"

text \<open>
  The weighted mean \<open>sum(w*x)/sum(w)\<close> and the unweighted mean of the claim, in the
  arithmetic of the code.
\<close>

definition weighted_mean :: "real list \<Rightarrow> real list \<Rightarrow> real" where
  "weighted_mean xs w = fdiv (weighted_sum xs w) (np_sum w)"

definition unweighted_mean :: "real list \<Rightarrow> real" where
  "unweighted_mean xs = fdiv (np_sum xs) (of_nat (length xs))"

section \<open>Theorems\<close>

subsection \<open>Rounding to doubles\<close>

lemma pow2_powr: "pow2 e = 2 powr (of_int e)"
proof (cases "0 \<le> e")
  case True
  then show ?thesis by (simp add: pow2_def powr_realpow[symmetric])
next
  case False
  then have "2 powr (of_int e) = 1 / (2::real) powr (of_int (- e))"
    by (simp add: powr_minus field_simps)
  also have "\<dots> = 1 / 2 ^ nat (- e)"
    using False by (simp add: powr_realpow[symmetric])
  finally show ?thesis using False by (simp add: pow2_def)
qed

lemma pow2_pos: "0 < pow2 e"
  by (simp add: pow2_powr)

lemma pow2_add: "pow2 (a + b) = pow2 a * pow2 b"
  by (simp add: pow2_powr powr_add)

lemma pow2_le_iff: "(pow2 a \<le> pow2 b) = (a \<le> b)"
  by (simp add: pow2_powr)

lemma pow2_less_iff: "(pow2 a < pow2 b) = (a < b)"
  by (simp add: pow2_powr)

lemma float_exponent_bounds:
  assumes "x \<noteq> 0"
  shows "pow2 (float_exponent x) \<le> \<bar>x\<bar>" and "\<bar>x\<bar> < pow2 (float_exponent x + 1)"
proof -
  have "pow2 (float_exponent x) \<le> \<bar>x\<bar> \<and> \<bar>x\<bar> < pow2 (float_exponent x + 1)"
  proof (cases "1 \<le> \<bar>x\<bar>")
    case True
    let ?n = "\<lfloor>\<bar>x\<bar>\<rfloor>"
    have n: "0 < ?n" using True by linarith
    have e: "float_exponent x = bitlen ?n - 1" using True by (simp add: float_exponent_def)
    have b: "2 ^ nat (bitlen ?n - 1) \<le> ?n" "?n < 2 ^ nat (bitlen ?n)"
      using bitlen_bounds[OF n] by auto
    have bl: "1 \<le> bitlen ?n" using n bitlen_eq_zero_iff[of ?n] bitlen_nonneg[of ?n] by linarith
    have "(2::real) ^ nat (bitlen ?n - 1) \<le> \<bar>x\<bar>"
      using b(1) by (simp add: le_floor_iff)
    then have lo: "pow2 (bitlen ?n - 1) \<le> \<bar>x\<bar>"
      using bl by (simp add: pow2_def)
    have "\<bar>x\<bar> < (2::real) ^ nat (bitlen ?n)"
      using b(2) by (simp add: floor_less_iff)
    then have hi: "\<bar>x\<bar> < pow2 (bitlen ?n)"
      using bl by (simp add: pow2_def)
    from lo hi show ?thesis by (simp add: e)
  next
    case False
    let ?y = "1 / \<bar>x\<bar>"
    let ?m = "\<lceil>?y\<rceil>"
    have xp: "0 < \<bar>x\<bar>" using assms by simp
    have y1: "1 < ?y" using False xp by (simp add: field_simps)
    have m: "0 < ?m - 1" using y1 by linarith
    let ?k = "bitlen (?m - 1)"
    have e: "float_exponent x = - ?k" using False by (simp add: float_exponent_def)
    have b: "2 ^ nat (?k - 1) \<le> ?m - 1" "?m - 1 < 2 ^ nat ?k"
      using bitlen_bounds[OF m] by auto
    have k1: "1 \<le> ?k" using m bitlen_eq_zero_iff[of "?m - 1"] bitlen_nonneg[of "?m - 1"] by linarith
    have "2 ^ nat (?k - 1) < ?m" using b(1) by linarith
    then have lo: "2 ^ nat (?k - 1) < ?y" by (simp add: less_ceiling_iff)
    have "?m \<le> 2 ^ nat ?k" using b(2) by simp
    then have hi: "?y \<le> 2 ^ nat ?k" by (simp add: ceiling_le_iff)
    have A: "pow2 (- ?k) \<le> \<bar>x\<bar>"
    proof -
      have "1 / 2 ^ nat ?k \<le> \<bar>x\<bar>" using hi xp by (simp add: field_simps)
      then show ?thesis using k1 by (simp add: pow2_def)
    qed
    have B: "\<bar>x\<bar> < pow2 (- ?k + 1)"
    proof -
      have "\<bar>x\<bar> < 1 / 2 ^ nat (?k - 1)" using lo xp by (simp add: field_simps)
      moreover have "pow2 (- ?k + 1) = 1 / 2 ^ nat (?k - 1)"
        using k1 by (cases "?k = 1") (simp_all add: pow2_def)
      ultimately show ?thesis by simp
    qed
    from A B show ?thesis by (simp add: e)
  qed
  then show "pow2 (float_exponent x) \<le> \<bar>x\<bar>" and "\<bar>x\<bar> < pow2 (float_exponent x + 1)" by simp_all
qed

lemma float_exponent_eqI:
  assumes "pow2 e \<le> \<bar>x\<bar>" and "\<bar>x\<bar> < pow2 (e + 1)"
  shows "float_exponent x = e"
proof -
  have nz: "x \<noteq> 0" using assms(1) pow2_pos[of e] by auto
  note b = float_exponent_bounds[OF nz]
  have "pow2 e < pow2 (float_exponent x + 1)" using assms(1) b(2) by linarith
  then have 1: "e \<le> float_exponent x" by (simp add: pow2_less_iff)
  have "pow2 (float_exponent x) < pow2 (e + 1)" using assms(2) b(1) by linarith
  then have 2: "float_exponent x \<le> e" by (simp add: pow2_less_iff)
  from 1 2 show ?thesis by simp
qed

lemma fl_eval:
  assumes "pow2 e \<le> \<bar>x\<bar>" and "\<bar>x\<bar> < pow2 (e + 1)"
  shows "fl x = of_int (round_half_even (x / pow2 (e - 52))) * pow2 (e - 52)"
proof -
  have nz: "x \<noteq> 0" using assms(1) pow2_pos[of e] by auto
  show ?thesis using nz by (simp add: fl_def Let_def float_exponent_eqI[OF assms])
qed

lemma round_half_even_near: "\<bar>of_int (round_half_even x) - x\<bar> \<le> 1 / 2"
  unfolding round_half_even_def Let_def by (auto; linarith)

lemma fl_eq_0_iff: "(fl x = 0) = (x = 0)"
proof (cases "x = 0")
  case True
  then show ?thesis by (simp add: fl_def)
next
  case False
  let ?u = "pow2 (float_exponent x - 52)"
  have u: "0 < ?u" by (rule pow2_pos)
  have "pow2 (float_exponent x) = pow2 52 * ?u"
    using pow2_add[of 52 "float_exponent x - 52"] by simp
  then have "pow2 52 * ?u \<le> \<bar>x\<bar>" using float_exponent_bounds(1)[OF False] by simp
  then have "pow2 52 \<le> \<bar>x\<bar> / ?u" using u by (simp add: field_simps)
  moreover have "(1::real) \<le> pow2 52" by (simp add: pow2_def)
  moreover have "\<bar>x / ?u\<bar> = \<bar>x\<bar> / ?u" using u by (simp add: abs_divide)
  ultimately have big: "1 \<le> \<bar>x / ?u\<bar>" by linarith
  have "round_half_even (x / ?u) \<noteq> 0"
  proof
    assume "round_half_even (x / ?u) = 0"
    with round_half_even_near[of "x / ?u"] have "\<bar>x / ?u\<bar> \<le> 1 / 2" by simp
    with big show False by linarith
  qed
  then show ?thesis using False u by (simp add: fl_def Let_def)
qed


lemma round_half_even_of_int: "round_half_even (of_int k) = k"
  by (simp add: round_half_even_def)

lemma round_half_even_floor: "\<lfloor>x\<rfloor> \<le> round_half_even x \<and> round_half_even x \<le> \<lfloor>x\<rfloor> + 1"
  by (simp add: round_half_even_def Let_def)

lemma round_half_even_mono:
  assumes "x \<le> y"
  shows "round_half_even x \<le> round_half_even y"
proof (cases "\<lfloor>x\<rfloor> = \<lfloor>y\<rfloor>")
  case True
  then show ?thesis using assms by (auto simp: round_half_even_def Let_def)
next
  case False
  then have "\<lfloor>x\<rfloor> + 1 \<le> \<lfloor>y\<rfloor>" using floor_mono[OF assms] by linarith
  then show ?thesis
    using round_half_even_floor[of x] round_half_even_floor[of y] by linarith
qed

lemma round_half_even_diff:
  assumes "even n"
  shows "round_half_even (of_int n - y) = n - round_half_even y"
proof (cases "y = of_int \<lfloor>y\<rfloor>")
  case True
  then obtain k where k: "y = of_int k" by blast
  have "of_int n - y = of_int (n - k)" by (simp add: k)
  then show ?thesis by (simp add: round_half_even_def Let_def k)
next
  case False
  define f where "f = \<lfloor>y\<rfloor>"
  have lt: "of_int f < y" using False f_def
    by (metis floor_less_cancel floor_of_int less_eq_real_def of_int_floor_le)
  have lt2: "y < of_int f + 1" by (simp add: f_def)
  have fl: "\<lfloor>of_int n - y\<rfloor> = n - f - 1"
    using lt lt2 by (simp add: floor_unique)
  show ?thesis
    using assms lt lt2 unfolding round_half_even_def Let_def fl f_def[symmetric]
    by (auto simp: algebra_simps)
qed

lemma round_half_even_minus: "round_half_even (- x) = - round_half_even x"
  using round_half_even_diff[of 0 x] by simp

lemma fl_zero: "fl 0 = 0"
  by (simp add: fl_def)

lemma float_exponent_minus: "float_exponent (- x) = float_exponent x"
  by (simp add: float_exponent_def)

lemma fl_minus: "fl (- x) = - fl x"
  by (simp add: fl_def Let_def float_exponent_minus round_half_even_minus)

lemma pow2_0: "pow2 0 = 1"
  by (simp add: pow2_def)

lemma pow2_53: "pow2 53 = 2 ^ 53" and pow2_52: "pow2 52 = 2 ^ 52"
  by (simp_all add: pow2_def)

lemma pow2_split: "pow2 e = pow2 k * pow2 (e - k)"
  using pow2_add[of k "e - k"] by simp

lemma fl_rel_error: "\<bar>fl x - x\<bar> \<le> \<bar>x\<bar> / 2 ^ 53"
proof (cases "x = 0")
  case True
  then show ?thesis by (simp add: fl_def)
next
  case False
  define u where "u = pow2 (float_exponent x - 52)"
  have u: "0 < u" unfolding u_def by (rule pow2_pos)
  have f: "fl x = of_int (round_half_even (x / u)) * u"
    using False by (simp add: fl_def Let_def u_def)
  have "fl x - x = (of_int (round_half_even (x / u)) - x / u) * u"
    using u by (simp add: f field_simps)
  then have "\<bar>fl x - x\<bar> = \<bar>of_int (round_half_even (x / u)) - x / u\<bar> * u"
    using u by (simp add: abs_mult)
  also have "\<dots> \<le> 1 / 2 * u"
    using round_half_even_near[of "x / u"] u by (intro mult_right_mono) auto
  finally have 1: "\<bar>fl x - x\<bar> \<le> u / 2" by simp
  have "pow2 (float_exponent x) = pow2 52 * u"
    unfolding u_def by (rule pow2_split)
  then have "2 ^ 52 * u \<le> \<bar>x\<bar>"
    using float_exponent_bounds(1)[OF False] by (simp add: pow2_52)
  then have "u / 2 \<le> \<bar>x\<bar> / 2 ^ 53" by simp
  with 1 show ?thesis by linarith
qed

text \<open>Numbers with at most 53 significant bits are doubles.\<close>

lemma fl_representable:
  assumes "\<bar>k\<bar> < 2 ^ 53"
  shows "fl (of_int k * pow2 e) = of_int k * pow2 e"
proof (cases "k = 0")
  case True
  then show ?thesis by (simp add: fl_def)
next
  case False
  define x where "x = of_int k * pow2 e"
  have nz: "x \<noteq> 0" using False pow2_pos[of e] by (simp add: x_def)
  define E where "E = float_exponent x"
  have ax: "\<bar>x\<bar> = of_int \<bar>k\<bar> * pow2 e"
    using pow2_pos[of e] by (simp add: x_def abs_mult)
  have "(of_int \<bar>k\<bar> :: real) < of_int (2 ^ 53)" using assms by (simp only: of_int_less_iff)
  then have "of_int \<bar>k\<bar> < (2::real) ^ 53" by simp
  then have "\<bar>x\<bar> < 2 ^ 53 * pow2 e" using pow2_pos[of e] by (simp add: ax)
  also have "\<dots> = pow2 (e + 53)" using pow2_add[of 53 e] by (simp add: pow2_53 add.commute)
  finally have "pow2 E < pow2 (e + 53)"
    using float_exponent_bounds(1)[OF nz] unfolding E_def by linarith
  then have "E < e + 53" by (simp add: pow2_less_iff)
  then have ge: "0 \<le> e - (E - 52)" by simp
  have "pow2 e = pow2 (E - 52) * pow2 (e - (E - 52))" by (rule pow2_split)
  also have "pow2 (e - (E - 52)) = 2 ^ nat (e - (E - 52))" using ge by (simp add: pow2_def)
  finally have pe: "pow2 e = pow2 (E - 52) * 2 ^ nat (e - (E - 52))" .
  have u: "0 < pow2 (E - 52)" by (rule pow2_pos)
  have "x / pow2 (E - 52) = of_int k * 2 ^ nat (e - (E - 52))"
    using u by (simp add: x_def pe)
  also have "\<dots> = of_int (k * 2 ^ nat (e - (E - 52)))" by simp
  finally have q: "x / pow2 (E - 52) = of_int (k * 2 ^ nat (e - (E - 52)))" .
  have "fl x = of_int (round_half_even (x / pow2 (E - 52))) * pow2 (E - 52)"
    using nz by (simp add: fl_def Let_def E_def)
  also have "\<dots> = of_int (k * 2 ^ nat (e - (E - 52))) * pow2 (E - 52)"
    unfolding q round_half_even_of_int ..
  also have "\<dots> = x" using q u by (simp add: field_simps)
  finally show ?thesis by (simp add: x_def)
qed

lemma fl_pow2: "fl (pow2 e) = pow2 e"
  using fl_representable[of 1 e] by simp

lemma fl_shape:
  assumes "x \<noteq> 0"
  obtains m e where "fl x = of_int m * pow2 e" and "2 ^ 52 \<le> \<bar>m\<bar>" and "\<bar>m\<bar> \<le> 2 ^ 53"
    and "e = float_exponent x - 52"
proof -
  define e where "e = float_exponent x - 52"
  define m where "m = round_half_even (x / pow2 e)"
  have u: "0 < pow2 e" by (rule pow2_pos)
  have f: "fl x = of_int m * pow2 e" using assms by (simp add: fl_def Let_def e_def m_def)
  have lo: "pow2 52 * pow2 e \<le> \<bar>x\<bar>"
    using float_exponent_bounds(1)[OF assms] pow2_split[of "float_exponent x" 52] by (simp add: e_def)
  have hi: "\<bar>x\<bar> < pow2 53 * pow2 e"
    using float_exponent_bounds(2)[OF assms] pow2_split[of "float_exponent x + 1" 53] by (simp add: e_def)
  have ax: "\<bar>x / pow2 e\<bar> = \<bar>x\<bar> / pow2 e" using u by (simp add: abs_divide)
  have 1: "2 ^ 52 \<le> \<bar>x / pow2 e\<bar>" using lo u by (simp add: ax pow2_52 field_simps)
  have 2: "\<bar>x / pow2 e\<bar> \<le> 2 ^ 53" using hi u by (simp add: ax pow2_53 field_simps)
  have "2 ^ 52 \<le> \<bar>m\<bar> \<and> \<bar>m\<bar> \<le> 2 ^ 53"
  proof (cases "0 \<le> x / pow2 e")
    case True
    then have a: "of_int (2 ^ 52) \<le> x / pow2 e" and b: "x / pow2 e \<le> of_int (2 ^ 53)" using 1 2 by simp_all
    have "2 ^ 52 \<le> m" using round_half_even_mono[OF a] by (simp only: round_half_even_of_int m_def)
    moreover have "m \<le> 2 ^ 53" using round_half_even_mono[OF b] by (simp only: round_half_even_of_int m_def)
    ultimately show ?thesis by simp
  next
    case False
    then have a: "x / pow2 e \<le> of_int (- (2 ^ 52))" and b: "of_int (- (2 ^ 53)) \<le> x / pow2 e" using 1 2 by simp_all
    have "m \<le> - (2 ^ 52)" using round_half_even_mono[OF a] by (simp only: round_half_even_of_int m_def)
    moreover have "- (2 ^ 53) \<le> m" using round_half_even_mono[OF b] by (simp only: round_half_even_of_int m_def)
    ultimately show ?thesis by simp
  qed
  then show ?thesis using that[OF f _ _ e_def] by blast
qed

lemma fl_fl: "fl (fl x) = fl x"
proof (cases "x = 0")
  case True
  then show ?thesis by (simp add: fl_def)
next
  case False
  then obtain m e where f: "fl x = of_int m * pow2 e" and lo: "2 ^ 52 \<le> \<bar>m\<bar>" and hi: "\<bar>m\<bar> \<le> 2 ^ 53"
    by (rule fl_shape)
  show ?thesis
  proof (cases "\<bar>m\<bar> = 2 ^ 53")
    case True
    then have "m = 2 ^ 53 \<or> m = - (2 ^ 53)" by linarith
    then have "of_int m * pow2 e = of_int (m div 2 ^ 53) * pow2 (e + 53)"
      using pow2_add[of e 53] by (auto simp: pow2_53)
    moreover have "\<bar>m div 2 ^ 53\<bar> < 2 ^ 53" using \<open>m = 2 ^ 53 \<or> m = - (2 ^ 53)\<close> by auto
    ultimately show ?thesis using fl_representable[of "m div 2 ^ 53" "e + 53"] by (simp add: f)
  next
    case False
    then have "\<bar>m\<bar> < 2 ^ 53" using hi by linarith
    then show ?thesis using fl_representable[of m e] by (simp add: f)
  qed
qed

lemma fl_nonneg: "0 \<le> x \<Longrightarrow> 0 \<le> fl x"
proof -
  assume x: "0 \<le> x"
  have "0 \<le> round_half_even (x / pow2 e)" for e
  proof -
    have "of_int 0 \<le> x / pow2 e" using x pow2_pos[of e] by simp
    from round_half_even_mono[OF this] show ?thesis by (simp only: round_half_even_of_int)
  qed
  then have "0 \<le> of_int (round_half_even (x / pow2 e)) * pow2 e" for e
    using pow2_pos[of e] by (intro mult_nonneg_nonneg) auto
  then show ?thesis by (simp add: fl_def Let_def)
qed

lemma fl_mono_pos:
  assumes "0 < x" and "x \<le> y"
  shows "fl x \<le> fl y"
proof -
  have nx: "x \<noteq> 0" and ny: "y \<noteq> 0" using assms by auto
  define ex where "ex = float_exponent x"
  define ey where "ey = float_exponent y"
  note bx = float_exponent_bounds[OF nx, folded ex_def]
  note by' = float_exponent_bounds[OF ny, folded ey_def]
  have "pow2 ex < pow2 (ey + 1)" using bx(1) by'(2) assms by linarith
  then have le: "ex \<le> ey" by (simp add: pow2_less_iff)
  have fx: "fl x = of_int (round_half_even (x / pow2 (ex - 52))) * pow2 (ex - 52)"
    using nx by (simp add: fl_def Let_def ex_def)
  have fy: "fl y = of_int (round_half_even (y / pow2 (ey - 52))) * pow2 (ey - 52)"
    using ny by (simp add: fl_def Let_def ey_def)
  show ?thesis
  proof (cases "ex = ey")
    case True
    have "x / pow2 (ey - 52) \<le> y / pow2 (ey - 52)"
      using assms pow2_pos[of "ey - 52"] by (simp add: divide_right_mono)
    then have "round_half_even (x / pow2 (ey - 52)) \<le> round_half_even (y / pow2 (ey - 52))"
      by (rule round_half_even_mono)
    then show ?thesis using pow2_pos[of "ey - 52"] by (simp add: fx fy True)
  next
    case False
    then have lt: "ex + 1 \<le> ey" using le by simp
    have ux: "0 < pow2 (ex - 52)" and uy: "0 < pow2 (ey - 52)" by (rule pow2_pos)+
    have "x < pow2 53 * pow2 (ex - 52)"
      using bx(2) assms pow2_split[of "ex + 1" 53] by simp
    then have "x / pow2 (ex - 52) \<le> of_int (2 ^ 53)" using ux by (simp add: pow2_53 field_simps)
    from round_half_even_mono[OF this] have "round_half_even (x / pow2 (ex - 52)) \<le> 2 ^ 53"
      by (simp only: round_half_even_of_int)
    then have "(of_int (round_half_even (x / pow2 (ex - 52))) :: real) \<le> of_int (2 ^ 53)"
      by (simp only: of_int_le_iff)
    then have "(of_int (round_half_even (x / pow2 (ex - 52))) :: real) \<le> 2 ^ 53"
      by simp
    then have "fl x \<le> 2 ^ 53 * pow2 (ex - 52)" using ux by (simp add: fx)
    also have "\<dots> = pow2 (ex + 1)" using pow2_split[of "ex + 1" 53] by (simp add: pow2_53)
    also have "\<dots> \<le> pow2 ey" using lt by (simp add: pow2_le_iff)
    finally have 1: "fl x \<le> pow2 ey" .
    have "pow2 52 * pow2 (ey - 52) \<le> y"
      using by'(1) assms pow2_split[of ey 52] by simp
    then have "of_int (2 ^ 52) \<le> y / pow2 (ey - 52)" using uy by (simp add: pow2_52 field_simps)
    from round_half_even_mono[OF this] have "2 ^ 52 \<le> round_half_even (y / pow2 (ey - 52))"
      by (simp only: round_half_even_of_int)
    then have "(of_int (2 ^ 52) :: real) \<le> of_int (round_half_even (y / pow2 (ey - 52)))"
      by (simp only: of_int_le_iff)
    then have "(2::real) ^ 52 \<le> of_int (round_half_even (y / pow2 (ey - 52)))"
      by simp
    then have "2 ^ 52 * pow2 (ey - 52) \<le> fl y" using uy by (simp add: fy)
    moreover have "2 ^ 52 * pow2 (ey - 52) = pow2 ey" using pow2_split[of ey 52] by (simp add: pow2_52)
    ultimately have 2: "pow2 ey \<le> fl y" by simp
    from 1 2 show ?thesis by linarith
  qed
qed

lemma fl_mono:
  assumes "x \<le> y"
  shows "fl x \<le> fl y"
proof -
  consider "0 < x" | "x \<le> 0" "0 \<le> y" | "y < 0" by linarith
  then show ?thesis
  proof cases
    case 1
    then show ?thesis using assms by (rule fl_mono_pos)
  next
    case 2
    have "0 \<le> fl (- x)" using 2(1) by (intro fl_nonneg) simp
    then have "fl x \<le> 0" by (simp add: fl_minus)
    moreover have "0 \<le> fl y" using 2(2) by (rule fl_nonneg)
    ultimately show ?thesis by linarith
  next
    case 3
    then have "0 < - y" and "- y \<le> - x" using assms by simp_all
    then have "fl (- y) \<le> fl (- x)" by (rule fl_mono_pos)
    then show ?thesis by (simp add: fl_minus)
  qed
qed

lemma fl_le_pow2: "x \<le> pow2 k \<Longrightarrow> fl x \<le> pow2 k"
  using fl_mono[of x "pow2 k"] by (simp add: fl_pow2)

lemma fl_ge_pow2: "pow2 k \<le> x \<Longrightarrow> pow2 k \<le> fl x"
  using fl_mono[of "pow2 k" x] by (simp add: fl_pow2)

lemma fl_of_int: "\<bar>k\<bar> < 2 ^ 53 \<Longrightarrow> fl (of_int k) = of_int k"
  using fl_representable[of k 0] by (simp add: pow2_0)

lemma bitlen_numeral: "bitlen (numeral k) = bitlen (numeral k div 2) + 1"
  by (subst compute_bitlen) simp

lemma bitlen_one: "bitlen 1 = 1"
  by (subst compute_bitlen) simp

lemmas fl_compute = fl_def float_exponent_def bitlen_numeral bitlen_one pow2_def round_half_even_def Let_def

subsection \<open>Key comparator\<close>

lemma compare_values_margin:
  "margin (compare_values a b ta tb hib eps) = a - b"
  by (simp add: compare_values_def Let_def)

lemma compare_values_tie_iff:
  assumes "ta \<noteq> ''TIE''" and "tb \<noteq> ''TIE''"
  shows "(winner (compare_values a b ta tb hib eps) = ''TIE'') = (\<bar>a - b\<bar> \<le> eps)"
  using assms by (simp add: compare_values_def Let_def)

text \<open>
  C5 (amended). For team labels other than \<open>"TIE"\<close> and a tolerance \<open>eps \<ge> 0\<close> (the default
  \<open>1e-9\<close> is one), \<open>compare_values\<close> returns the winner \<open>"TIE"\<close> exactly when
  \<open>|a - b| \<le> eps\<close>; otherwise the winner is the side with the higher value when
  \<open>higher_is_better\<close> and the side with the lower value when not. The margin is always
  \<open>a - b\<close>; swapping the operands negates it and, when the result is not a tie, swaps the
  winner.
\<close>

theorem compare_values_spec:
  assumes "team_a \<noteq> ''TIE''" and "team_b \<noteq> ''TIE''" and "0 \<le> eps"
  shows "((winner (compare_values a b team_a team_b hib eps) = ''TIE'') = (\<bar>a - b\<bar> \<le> eps))
    \<and> (\<not> \<bar>a - b\<bar> \<le> eps \<longrightarrow>
          (if (hib \<and> b < a) \<or> (\<not> hib \<and> a < b)
           then winner (compare_values a b team_a team_b hib eps) = team_a
           else winner (compare_values a b team_a team_b hib eps) = team_b
                \<and> ((hib \<and> a < b) \<or> (\<not> hib \<and> b < a))))
    \<and> margin (compare_values a b team_a team_b hib eps) = a - b
    \<and> margin (compare_values b a team_a team_b hib eps)
          = - margin (compare_values a b team_a team_b hib eps)
    \<and> (\<not> \<bar>a - b\<bar> \<le> eps \<longrightarrow>
          (winner (compare_values a b team_a team_b hib eps) = team_a
             \<and> winner (compare_values b a team_a team_b hib eps) = team_b)
          \<or> (winner (compare_values a b team_a team_b hib eps) = team_b
             \<and> winner (compare_values b a team_a team_b hib eps) = team_a))"
proof -
  have tie: "(winner (compare_values a b team_a team_b hib eps) = ''TIE'') = (\<bar>a - b\<bar> \<le> eps)"
    using assms(1,2) by (rule compare_values_tie_iff)
  have ne: "a \<noteq> b" if "\<not> \<bar>a - b\<bar> \<le> eps"
    using that assms(3) by auto
  have dir: "winner (compare_values a b team_a team_b hib eps)
      = (if (hib \<and> b < a) \<or> (\<not> hib \<and> a < b) then team_a else team_b)"
    if "\<not> \<bar>a - b\<bar> \<le> eps"
    using that by (simp add: compare_values_def Let_def)
  have swap: "(winner (compare_values a b team_a team_b hib eps) = team_a
             \<and> winner (compare_values b a team_a team_b hib eps) = team_b)
          \<or> (winner (compare_values a b team_a team_b hib eps) = team_b
             \<and> winner (compare_values b a team_a team_b hib eps) = team_a)"
    if "\<not> \<bar>a - b\<bar> \<le> eps"
  proof -
    have "\<not> \<bar>b - a\<bar> \<le> eps" using that by (simp add: abs_minus_commute)
    then show ?thesis using that ne[OF that]
      by (auto simp: compare_values_def Let_def)
  qed
  show ?thesis
    using tie dir swap ne by (auto simp: compare_values_margin)
qed

theorem compare_values_spec_witness:
  "''SEA'' \<noteq> ''TIE'' \<and> ''NE'' \<noteq> ''TIE'' \<and> 0 \<le> default_eps
   \<and> winner (compare_values (80001 / 10000) 8 ''SEA'' ''NE'' True default_eps) = ''SEA''
   \<and> winner (compare_values 8 (80001 / 10000) ''SEA'' ''NE'' True default_eps) = ''NE''
   \<and> margin (compare_values 8 (80001 / 10000) ''SEA'' ''NE'' True default_eps) = - (1 / 10000)"
  using compare_values_spec[of "''SEA''" "''NE''" default_eps "80001 / 10000" 8 True]
  by (auto simp: default_eps_def)

text \<open>
  C5 as stated fails for a team that is called \<open>"TIE"\<close>: its wins carry the label of a tie
  although the values differ by more than \<open>eps\<close>.
\<close>

theorem compare_values_tie_label_clash:
  "winner (compare_values 2 1 ''TIE'' ''NE'' True default_eps) = ''TIE''
   \<and> \<not> \<bar>2 - 1 :: real\<bar> \<le> default_eps"
  by (simp add: compare_values_def default_eps_def Let_def)

subsection \<open>Percentile rank\<close>

lemma percentile_rank_higher:
  "percentile_rank val vals False = percentile_no_better val vals False"
  by (simp add: percentile_rank_def percentile_no_better_def Let_def)

lemma percentile_rank_empty:
  "percentile_rank val [] lib = 50"
  by (simp add: percentile_rank_def)

lemma filter_le_complement:
  "length (filter (\<lambda>v. v \<le> (x::real)) vs) = length vs - length (filter (\<lambda>v. v > x) vs)"
proof -
  have "length (filter (\<lambda>v. v > x) vs) + length (filter (\<lambda>v. \<not> v > x) vs) = length vs"
    by (rule sum_length_filter_compl)
  moreover have "filter (\<lambda>v. \<not> v > x) vs = filter (\<lambda>v. v \<le> x) vs"
    by (rule filter_cong) auto
  ultimately show ?thesis by simp
qed

lemma percentile_rank_ignores_direction:
  "percentile_rank val vals True = percentile_rank val vals False"
  by (simp add: percentile_rank_def Let_def filter_le_complement)

text \<open>
  C6. The code departs from the claim for the lower-is-better key: \<open>n - count_better\<close>
  counts the values \<open>\<le>\<close> the team's, so the team with the fewest turnovers of four gets
  the percentile 25 where the claim (and the docstring) gives 100, and the team with the
  most gets 100 where the claim gives 25.
\<close>

theorem percentile_rank_turnovers_inverted:
  "percentile_rank 0 [0, 1, 2, 3] True = 25
   \<and> percentile_no_better 0 [0, 1, 2, 3] True = 100
   \<and> percentile_rank 3 [0, 1, 2, 3] True = 100
   \<and> percentile_no_better 3 [0, 1, 2, 3] True = 25"
  by (simp add: percentile_rank_def percentile_no_better_def Let_def)

subsection \<open>Keys engine: the two rates\<close>

lemma round_decimal_zero: "round_decimal 0 n = 0"
  by (simp add: round_decimal_def round_half_even_def)

lemma py_round_zero: "py_round 0 n = 0"
  by (simp add: py_round_def round_decimal_zero fl_zero)

lemma fmul_zero: "fmul x 0 = 0"
  by (simp add: fmul_def fl_zero)

lemma round_decimal_near: "\<bar>round_decimal x 2 - x\<bar> \<le> 1 / 200"
proof -
  define k :: real where "k = of_int (round_half_even (x * 100))"
  have "\<bar>k - x * 100\<bar> \<le> 1 / 2"
    unfolding k_def by (rule round_half_even_near)
  moreover have e: "round_decimal x 2 - x = (k - x * 100) / 100"
    by (simp add: round_decimal_def k_def diff_divide_distrib)
  moreover have "\<bar>round_decimal x 2 - x\<bar> = \<bar>k - x * 100\<bar> / 100"
    unfolding e by simp
  ultimately show ?thesis by simp
qed

lemma compute_team_keys_rates: "rates_recomputed (compute_team_keys pbp t P R Z D)"
  by (simp add: compute_team_keys_def Let_def rates_recomputed_def rate_of_def empty_team_keys_def
      safe_div_def py_round_zero fmul_zero)

lemma aggregate_keys_rates: "rates_recomputed (aggregate_keys ks t)"
  by (cases ks) (simp_all add: aggregate_keys_def Let_def rates_recomputed_def rate_of_def
      empty_team_keys_def safe_div_def py_round_zero fmul_zero)

lemma aggregate_keys_counts:
  "third_down_attempts (aggregate_keys ks t) = sum_list (map third_down_attempts ks)
   \<and> third_down_converted (aggregate_keys ks t) = sum_list (map third_down_converted ks)
   \<and> redzone_trips (aggregate_keys ks t) = sum_list (map redzone_trips ks)
   \<and> redzone_td_drives (aggregate_keys ks t) = sum_list (map redzone_td_drives ks)"
  by (cases ks) (simp_all add: aggregate_keys_def Let_def empty_team_keys_def)

lemma rounding_error_chain:
  fixes a :: real
  assumes "0 \<le> a" "aq \<le> a + dq" "ap \<le> 100 * aq + dp" "ar \<le> ap + dr"
    "tot \<le> ds + dr + dp + 100 * dq" "dq \<le> a / 2 ^ 53" "dp \<le> 100 * aq / 2 ^ 53"
    "dr \<le> 1 / 200" "ds \<le> ar / 2 ^ 53"
  shows "tot \<le> 1 / 200 + (1 + 100 * a) / 2 ^ 50"
proof -
  have "a / 2 ^ 53 \<le> a" using assms(1) by (simp add: field_simps)
  then have 1: "aq \<le> 2 * a" using assms(2,6) by simp
  have "100 * aq / 2 ^ 53 \<le> 100 * (2 * a) / 2 ^ 53"
    using 1 by (intro divide_right_mono mult_left_mono) auto
  also have "\<dots> \<le> a / 2 ^ 45" using assms(1) by (simp add: field_simps)
  finally have 2: "dp \<le> a / 2 ^ 45" using assms(7) by simp
  have "a / 2 ^ 45 \<le> a" using assms(1) by (simp add: field_simps)
  then have 3: "ap \<le> 201 * a" using assms(3) 1 2 by simp
  have 4: "ar \<le> 201 * a + 1" using assms(4,8) 3 by simp
  have "ar / 2 ^ 53 \<le> (201 * a + 1) / 2 ^ 53"
    using 4 by (intro divide_right_mono) auto
  then have 5: "ds \<le> (1 + 201 * a) / 2 ^ 53" using assms(9) by (simp add: add.commute)
  have "ds + dr + dp + 100 * dq \<le> (1 + 201 * a) / 2 ^ 53 + 1 / 200 + a / 2 ^ 45 + 100 * (a / 2 ^ 53)"
    using assms(6,8) 2 5 by (intro add_mono mult_left_mono) auto
  also have "\<dots> = 1 / 200 + (1 + 557 * a) / 2 ^ 53" by (simp add: field_simps)
  also have "\<dots> \<le> 1 / 200 + (1 + 100 * a) / 2 ^ 50"
  proof -
    have "(1 + 557 * a) / 2 ^ 53 \<le> (8 + 800 * a) / 2 ^ 53"
      using assms(1) by (intro divide_right_mono) auto
    also have "\<dots> = (1 + 100 * a) / 2 ^ 50" by (simp add: field_simps)
    finally show ?thesis by simp
  qed
  finally show ?thesis using assms(5) by simp
qed

lemma rate_of_close:
  "\<bar>rate_of made tried - 100 * of_int made / of_int tried\<bar>
     \<le> 1 / 200 + (1 + \<bar>100 * of_int made / of_int tried\<bar>) / 2 ^ 50"
proof (cases "tried = 0")
  case True
  then show ?thesis by (simp add: rate_of_def)
next
  case False
  define x :: real where "x = of_int made / of_int tried"
  define q where "q = fl x"
  define p where "p = fl (100 * q)"
  define r where "r = round_decimal p 2"
  define s where "s = fl r"
  have 1: "\<bar>q - x\<bar> \<le> \<bar>x\<bar> / 2 ^ 53" unfolding q_def by (rule fl_rel_error)
  have 2: "\<bar>p - 100 * q\<bar> \<le> \<bar>100 * q\<bar> / 2 ^ 53" unfolding p_def by (rule fl_rel_error)
  have 3: "\<bar>r - p\<bar> \<le> 1 / 200" unfolding r_def by (rule round_decimal_near)
  have 4: "\<bar>s - r\<bar> \<le> \<bar>r\<bar> / 2 ^ 53" unfolding s_def by (rule fl_rel_error)
  define a where "a = \<bar>x\<bar>"
  define dq where "dq = \<bar>q - x\<bar>"
  define dp where "dp = \<bar>p - 100 * q\<bar>"
  define dr where "dr = \<bar>r - p\<bar>"
  define ds where "ds = \<bar>s - r\<bar>"
  define aq where "aq = \<bar>q\<bar>"
  define ap where "ap = \<bar>p\<bar>"
  define ar where "ar = \<bar>r\<bar>"
  define tot where "tot = \<bar>s - 100 * x\<bar>"
  have a0: "0 \<le> a" by (simp add: a_def)
  have qb: "aq \<le> a + dq" unfolding aq_def a_def dq_def by linarith
  have pb: "ap \<le> 100 * aq + dp" unfolding ap_def aq_def dp_def by linarith
  have rb: "ar \<le> ap + dr" unfolding ar_def ap_def dr_def by linarith
  have t1: "tot \<le> ds + \<bar>r - 100 * x\<bar>" unfolding tot_def ds_def by linarith
  have t2: "\<bar>r - 100 * x\<bar> \<le> dr + \<bar>p - 100 * x\<bar>" unfolding dr_def by linarith
  have t3: "\<bar>p - 100 * x\<bar> \<le> dp + \<bar>100 * q - 100 * x\<bar>" unfolding dp_def by linarith
  have "100 * q - 100 * x = 100 * (q - x)" by simp
  then have t4: "\<bar>100 * q - 100 * x\<bar> = 100 * dq" unfolding dq_def by (simp only: abs_mult abs_numeral)
  have tri: "tot \<le> ds + dr + dp + 100 * dq"
    using t1 t2 t3 t4 by simp
  have e1: "dq \<le> a / 2 ^ 53" using 1 by (simp add: dq_def a_def)
  have e2: "dp \<le> 100 * aq / 2 ^ 53" using 2 by (simp add: dp_def aq_def abs_mult)
  have e3: "dr \<le> 1 / 200" using 3 by (simp add: dr_def)
  have e4: "ds \<le> ar / 2 ^ 53" using 4 by (simp add: ds_def ar_def)
  have "tot \<le> 1 / 200 + (1 + 100 * a) / 2 ^ 50"
    using a0 qb pb rb tri e1 e2 e3 e4 by (rule rounding_error_chain)
  then have "\<bar>s - 100 * x\<bar> \<le> 1 / 200 + (1 + \<bar>100 * x\<bar>) / 2 ^ 50"
    by (simp add: a_def tot_def abs_mult)
  moreover have "rate_of made tried = s"
    using False by (simp add: rate_of_def s_def r_def p_def q_def x_def py_round_def fmul_def fdiv_def)
  ultimately show ?thesis by (simp add: x_def)
qed

text \<open>
  C4 (amended). Every TeamKeys that \<open>compute_team_keys\<close> or \<open>aggregate_keys\<close> produces has
  \<open>third_down_pct\<close> equal to \<open>round(100.0 * (third_down_converted / third_down_attempts), 2)\<close>
  as doubles compute it (0 when there are no attempts), and \<open>redzone_td_pct\<close> equal to the
  same expression of \<open>redzone_td_drives\<close> and \<open>redzone_trips\<close>. Aggregation sums the four
  counts and recomputes the rates from the sums. Such a rate is the exact quotient times
  100 up to the rounding: it is off by at most 0.005 and the relative error of doubles.
\<close>

theorem rates_recomputed_and_rounded:
  "rates_recomputed (compute_team_keys pbp t P R Z D)
   \<and> rates_recomputed (aggregate_keys ks t')
   \<and> third_down_attempts (aggregate_keys ks t') = sum_list (map third_down_attempts ks)
   \<and> third_down_converted (aggregate_keys ks t') = sum_list (map third_down_converted ks)
   \<and> redzone_trips (aggregate_keys ks t') = sum_list (map redzone_trips ks)
   \<and> redzone_td_drives (aggregate_keys ks t') = sum_list (map redzone_td_drives ks)
   \<and> rate_of made 0 = 0
   \<and> \<bar>rate_of made tried - 100 * of_int made / of_int tried\<bar>
        \<le> 1 / 200 + (1 + \<bar>100 * of_int made / of_int tried\<bar>) / 2 ^ 50"
  using compute_team_keys_rates aggregate_keys_rates aggregate_keys_counts rate_of_close
  by (simp add: rate_of_def)

text \<open>
  C4 as stated fails where the quotient has more than 2 decimals: one conversion on three
  third downs gives the double 33.33, not 100/3. The stored rate is not the exact quotient
  rounded to 2 decimals either: 49 conversions on 160 aggregated attempts, exactly 30.625,
  give the double 30.63, since \<open>100.0 * (49 / 160)\<close> is a double above 30.625.
\<close>

theorem rates_not_exact:
  "third_down_pct (compute_team_keys (test_pbp
       [test_play ''g1'' ''SEA'' 1 ''1:00'' 3 4 5 ''pass'' 0 50,
        test_play ''g1'' ''SEA'' 1 ''1:00'' 3 10 3 ''run'' 0 45,
        test_play ''g1'' ''SEA'' 1 ''1:00'' 3 10 2 ''run'' 0 40]) ''SEA'' 15 10 20 3) = fl (3333 / 100)
   \<and> third_down_converted (compute_team_keys (test_pbp
       [test_play ''g1'' ''SEA'' 1 ''1:00'' 3 4 5 ''pass'' 0 50,
        test_play ''g1'' ''SEA'' 1 ''1:00'' 3 10 3 ''run'' 0 45,
        test_play ''g1'' ''SEA'' 1 ''1:00'' 3 10 2 ''run'' 0 40]) ''SEA'' 15 10 20 3) = 1
   \<and> third_down_attempts (compute_team_keys (test_pbp
       [test_play ''g1'' ''SEA'' 1 ''1:00'' 3 4 5 ''pass'' 0 50,
        test_play ''g1'' ''SEA'' 1 ''1:00'' 3 10 3 ''run'' 0 45,
        test_play ''g1'' ''SEA'' 1 ''1:00'' 3 10 2 ''run'' 0 40]) ''SEA'' 15 10 20 3) = 3
   \<and> fl (3333 / 100) \<noteq> 100 * 1 / 3
   \<and> third_down_pct (aggregate_keys
       [(make_TeamKeys ''SEA'' 30 1 2 30 50)\<lparr>third_down_attempts := 100, third_down_converted := 30\<rparr>,
        (make_TeamKeys ''SEA'' 30 0 3 32 50)\<lparr>third_down_attempts := 60, third_down_converted := 19\<rparr>] ''SEA'')
       = fl (3063 / 100)
   \<and> fl (3063 / 100) \<noteq> 100 * 49 / 160
   \<and> round_decimal (100 * 49 / 160) 2 = 3062 / 100"
proof -
  have r1: "rate_of 1 3 = fl (3333 / 100)"
    by (simp add: rate_of_def py_round_def round_decimal_def fmul_def fdiv_def fl_compute)
  have r2: "rate_of 49 160 = fl (3063 / 100)"
    by (simp add: rate_of_def py_round_def round_decimal_def fmul_def fdiv_def fl_compute)
  have n1: "fl (3333 / 100) \<noteq> 100 * 1 / 3" by (simp add: fl_compute)
  have n2: "fl (3063 / 100) \<noteq> 100 * 49 / 160" by (simp add: fl_compute)
  have n3: "round_decimal (100 * 49 / 160) 2 = 3062 / 100"
    by (simp add: round_decimal_def round_half_even_def Let_def)
  have c: "third_down_converted (compute_team_keys (test_pbp
       [test_play ''g1'' ''SEA'' 1 ''1:00'' 3 4 5 ''pass'' 0 50,
        test_play ''g1'' ''SEA'' 1 ''1:00'' 3 10 3 ''run'' 0 45,
        test_play ''g1'' ''SEA'' 1 ''1:00'' 3 10 2 ''run'' 0 40]) ''SEA'' 15 10 20 3) = 1"
    and a: "third_down_attempts (compute_team_keys (test_pbp
       [test_play ''g1'' ''SEA'' 1 ''1:00'' 3 4 5 ''pass'' 0 50,
        test_play ''g1'' ''SEA'' 1 ''1:00'' 3 10 3 ''run'' 0 45,
        test_play ''g1'' ''SEA'' 1 ''1:00'' 3 10 2 ''run'' 0 40]) ''SEA'' 15 10 20 3) = 3"
    by (simp_all add: compute_team_keys_def test_pbp_def test_play_def Let_def
        is_scoring_play_type_def fillna_def)
  have A: "third_down_pct (compute_team_keys (test_pbp
       [test_play ''g1'' ''SEA'' 1 ''1:00'' 3 4 5 ''pass'' 0 50,
        test_play ''g1'' ''SEA'' 1 ''1:00'' 3 10 3 ''run'' 0 45,
        test_play ''g1'' ''SEA'' 1 ''1:00'' 3 10 2 ''run'' 0 40]) ''SEA'' 15 10 20 3) = fl (3333 / 100)"
    using compute_team_keys_rates[of "test_pbp
       [test_play ''g1'' ''SEA'' 1 ''1:00'' 3 4 5 ''pass'' 0 50,
        test_play ''g1'' ''SEA'' 1 ''1:00'' 3 10 3 ''run'' 0 45,
        test_play ''g1'' ''SEA'' 1 ''1:00'' 3 10 2 ''run'' 0 40]" "''SEA''" 15 10 20 3]
    unfolding rates_recomputed_def c a r1 by simp
  have B: "third_down_pct (aggregate_keys
       [(make_TeamKeys ''SEA'' 30 1 2 30 50)\<lparr>third_down_attempts := 100, third_down_converted := 30\<rparr>,
        (make_TeamKeys ''SEA'' 30 0 3 32 50)\<lparr>third_down_attempts := 60, third_down_converted := 19\<rparr>] ''SEA'')
       = rate_of 49 160"
    by (simp add: aggregate_keys_def Let_def make_TeamKeys_def rate_of_def safe_div_def)
  show ?thesis unfolding A B c a r2 using n1 n2 n3 by simp
qed

end
